theory Spec2Isabelle
  imports Complex_Main
begin

section \<open>JavaScript numbers\<close>

text \<open>
  A JavaScript number is modelled as a finite value or \<open>NaN\<close>. Finite doubles are taken as
  exact reals: rounding, overflow to an infinity and the sign of zero are not modelled.
\<close>

datatype jsnum = Num real | NaN

fun is_num :: "jsnum \<Rightarrow> bool" where
  "is_num (Num r) = True"
| "is_num NaN = False"

text \<open>The value of a number that is not \<open>NaN\<close>; used under \<open>is_num\<close> only.\<close>

fun num_val :: "jsnum \<Rightarrow> real" where
  "num_val (Num r) = r"
| "num_val NaN = 0"

text \<open>\<open>a <= b\<close>: false as soon as one side is \<open>NaN\<close>.\<close>

fun js_le :: "jsnum \<Rightarrow> jsnum \<Rightarrow> bool" where
  "js_le (Num a) (Num b) = (a \<le> b)"
| "js_le _ _ = False"

fun js_add :: "jsnum \<Rightarrow> jsnum \<Rightarrow> jsnum" where
  "js_add (Num a) (Num b) = Num (a + b)"
| "js_add _ _ = NaN"

fun js_sub :: "jsnum \<Rightarrow> jsnum \<Rightarrow> jsnum" where
  "js_sub (Num a) (Num b) = Num (a - b)"
| "js_sub _ _ = NaN"

fun js_mul :: "jsnum \<Rightarrow> jsnum \<Rightarrow> jsnum" where
  "js_mul (Num a) (Num b) = Num (a * b)"
| "js_mul _ _ = NaN"

text \<open>
  \<open>a / b\<close>. JavaScript divides by a zero to an infinity (or to \<open>NaN\<close> for \<open>0 / 0\<close>), with
  the sign taken from the signs of both operands; neither is kept here, so the quotient by
  zero is \<open>NaN\<close>. The only division of the program, in \<open>evaluateDeal\<close>, is reached
  with a positive divisor (lemma \<open>so_so_scanned_positive\<close>).
\<close>

fun js_div :: "jsnum \<Rightarrow> jsnum \<Rightarrow> jsnum" where
  "js_div (Num a) (Num b) = (if b = 0 then NaN else Num (a / b))"
| "js_div _ _ = NaN"

text \<open>\<open>Math.abs\<close>\<close>

fun Math_abs :: "jsnum \<Rightarrow> jsnum" where
  "Math_abs (Num a) = Num \<bar>a\<bar>"
| "Math_abs NaN = NaN"

text \<open>Truthiness of a number, as in \<open>if (product.price)\<close>: zero and \<open>NaN\<close> are falsy.\<close>

fun truthy_num :: "jsnum \<Rightarrow> bool" where
  "truthy_num (Num r) = (r \<noteq> 0)"
| "truthy_num NaN = False"


section \<open>The data model (src/types/item.ts)\<close>

datatype DealTag = DEAL | SO_SO | NO_DEAL

record Recommendation =
  rec_id :: string
  rec_name :: string
  rec_price :: jsnum
  rec_store :: string
  rec_distance :: "real option"

record Item =
  item_id :: string
  item_name :: string
  item_brand :: "string option"
  item_price :: jsnum
  item_image :: string
  item_store :: "string option"
  item_coordinates :: "(real \<times> real) option"
  item_isOrganic :: "bool option"
  item_tag :: "DealTag option"
  item_recommendations :: "Recommendation list option"


section \<open>The deal evaluator (scanner modal, \<open>evaluateDeal\<close>)\<close>

definition margin :: jsnum where
  "margin = Num 0.05"

text \<open>\<open>deals.slice(0, n)\<close> is \<open>take n deals\<close>; \<open>tag ?? 'DEAL'\<close> keeps a tag that is there.\<close>

definition evaluateDeal :: "Item \<Rightarrow> Recommendation list \<Rightarrow> Item" where
  "evaluateDeal scanned deals =
     (case deals of
        cheapest # _ \<Rightarrow>
          if js_le (item_price scanned) (rec_price cheapest) then
            scanned\<lparr>item_tag := Some DEAL, item_recommendations := Some (take 2 deals)\<rparr>
          else if js_le (item_price scanned) (js_mul (rec_price cheapest) (js_add (Num 1) margin)) then
            scanned\<lparr>item_tag := Some SO_SO,
                    item_recommendations := Some (filter
                      (\<lambda>d. js_le (js_div (Math_abs (js_sub (rec_price d) (item_price scanned)))
                                         (item_price scanned)) margin) deals)\<rparr>
          else
            scanned\<lparr>item_tag := Some NO_DEAL, item_recommendations := Some (take 3 deals)\<rparr>
      | [] \<Rightarrow>
          scanned\<lparr>item_tag := Some (case item_tag scanned of Some t \<Rightarrow> t | None \<Rightarrow> DEAL),
                  item_recommendations := None\<rparr>)"


section \<open>Strings\<close>

text \<open>
  Strings are byte strings. \<open>toLowerCase\<close> maps the letters \<open>A\<close> to \<open>Z\<close> to lower case and
  leaves every other character alone, which is JavaScript's \<open>toLowerCase\<close> on ASCII text.
\<close>

definition lower_char :: "char \<Rightarrow> char" where
  "lower_char c =
     (let n = (of_char c :: nat) in if 65 \<le> n \<and> n \<le> 90 then char_of (n + 32) else c)"

definition toLowerCase :: "string \<Rightarrow> string" where
  "toLowerCase s = map lower_char s"

text \<open>\<open>s.startsWith(t)\<close> and \<open>s.includes(t)\<close>\<close>

fun startsWith :: "string \<Rightarrow> string \<Rightarrow> bool" where
  "startsWith s [] = True"
| "startsWith [] (c # t) = False"
| "startsWith (a # s) (c # t) = (a = c \<and> startsWith s t)"

fun str_includes :: "string \<Rightarrow> string \<Rightarrow> bool" where
  "str_includes [] t = (t = [])"
| "str_includes (a # s) t = (startsWith (a # s) t \<or> str_includes s t)"

text \<open>\<open>s.trim()\<close>, on the ASCII white space: tab, line feed, vertical tab, form feed, carriage return, space.\<close>

definition is_space :: "char \<Rightarrow> bool" where
  "is_space c = (let n = (of_char c :: nat) in (9 \<le> n \<and> n \<le> 13) \<or> n = 32)"

definition trim :: "string \<Rightarrow> string" where
  "trim s = rev (dropWhile is_space (rev (dropWhile is_space s)))"

text \<open>A string read from the environment or from a payload is falsy when it is missing or empty.\<close>

fun truthy_str :: "string option \<Rightarrow> bool" where
  "truthy_str None = False"
| "truthy_str (Some s) = (s \<noteq> [])"


section \<open>Values of a price field in a provider's payload\<close>

text \<open>
  The adapters read price fields of untyped JSON and pass them through \<open>Number(...)\<close>.
  A field is \<open>Undefined\<close> (missing), \<open>Null\<close>, \<open>Numeric r\<close> (a value that \<open>Number\<close> converts
  to the number \<open>r\<close>: a JSON number, or a numeric string such as "3.29") or \<open>NonNumeric\<close>
  (a value that \<open>Number\<close> converts to \<open>NaN\<close>: a string such as "N/A", a plain object).
\<close>

datatype jsval = Undefined | Null | Numeric real | NonNumeric

fun Number :: "jsval \<Rightarrow> jsnum" where
  "Number Undefined = NaN"
| "Number Null = Num 0"
| "Number (Numeric r) = Num r"
| "Number NonNumeric = NaN"

text \<open>\<open>a ?? b\<close> on such values, and \<open>v != null\<close>\<close>

fun nullish :: "jsval \<Rightarrow> bool" where
  "nullish Undefined = True"
| "nullish Null = True"
| "nullish _ = False"

definition coalesce :: "jsval \<Rightarrow> jsval \<Rightarrow> jsval" where
  "coalesce a b = (if nullish a then b else a)"

text \<open>\<open>a ?? b\<close> on an optional field with a default\<close>

fun orElse :: "'a option \<Rightarrow> 'a \<Rightarrow> 'a" where
  "orElse (Some a) b = a"
| "orElse None b = b"

text \<open>\<open>a ?? b\<close> when both sides may be missing\<close>

fun orElseOpt :: "'a option \<Rightarrow> 'a option \<Rightarrow> 'a option" where
  "orElseOpt (Some a) b = Some a"
| "orElseOpt None b = b"

text \<open>\<open>xs[0]\<close>, undefined on an empty array, and \<open>xs?.[0]\<close> on an optional array\<close>

fun first :: "'a list \<Rightarrow> 'a option" where
  "first [] = None"
| "first (x # xs) = Some x"

fun optFirst :: "'a list option \<Rightarrow> 'a option" where
  "optFirst None = None"
| "optFirst (Some xs) = first xs"


section \<open>\<open>Array.prototype.sort\<close> with a comparator\<close>

text \<open>
  \<open>xs.sort(cmp)\<close> is stable; \<open>a\<close> stays before \<open>b\<close> unless \<open>cmp(a, b) > 0\<close>, and a comparator
  result \<open>NaN\<close> counts as zero. It is modelled by a stable insertion sort. The language
  fixes the result only for a consistent comparator; \<open>(a, b) => a.price - b.price\<close> is one
  when no price is \<open>NaN\<close>, and then the result is the stable sort by price
  (lemma \<open>array_sort_by_price\<close>).
\<close>

fun positive :: "jsnum \<Rightarrow> bool" where
  "positive (Num r) = (0 < r)"
| "positive NaN = False"

fun sort_insert :: "('a \<Rightarrow> 'a \<Rightarrow> jsnum) \<Rightarrow> 'a \<Rightarrow> 'a list \<Rightarrow> 'a list" where
  "sort_insert cmp x [] = [x]"
| "sort_insert cmp x (y # ys) =
     (if positive (cmp x y) then y # sort_insert cmp x ys else x # y # ys)"

definition array_sort :: "('a \<Rightarrow> 'a \<Rightarrow> jsnum) \<Rightarrow> 'a list \<Rightarrow> 'a list" where
  "array_sort cmp xs = foldr (sort_insert cmp) xs []"

text \<open>The comparator \<open>(a, b) => a.price - b.price\<close>\<close>

definition by_price :: "Recommendation \<Rightarrow> Recommendation \<Rightarrow> jsnum" where
  "by_price a b = js_sub (rec_price a) (rec_price b)"


section \<open>The network and the process environment\<close>

text \<open>
  What \<open>fetch\<close> followed by \<open>res.json()\<close> can give: \<open>NetworkError\<close> when \<open>fetch\<close>
  rejects, \<open>NotOk\<close> when \<open>res.ok\<close> is false, \<open>BadBody\<close> when \<open>res.json()\<close> rejects, and the
  decoded body otherwise. A body is typed as the adapter reads it: every field read through
  \<open>?.\<close> or \<open>??\<close> is optional. Bodies of another shape are outside the model.
\<close>

datatype 'a response = NetworkError | NotOk | BadBody | Json 'a

text \<open>A query value: a string, or \<open>String(n)\<close> for a number \<open>n\<close>, which is never empty.\<close>

datatype qval = Str string | NumStr real

fun qval_empty :: "qval \<Rightarrow> bool" where
  "qval_empty (Str s) = (s = [])"
| "qval_empty (NumStr n) = False"

text \<open>The requests the adapters send, by endpoint, with what each one carries.\<close>

datatype request =
    KrogerToken string string
  | KrogerLocations real real real string
  | KrogerProducts "(string \<times> string) list" string
  | WalmartGet string "(string \<times> qval) list" "string option"

record kroger_token_body =
  access_token :: "string option"

record kroger_address =
  address_name :: "string option"

record kroger_geolocation =
  geo_latitude :: "real option"
  geo_longitude :: "real option"

record kroger_location_raw =
  raw_locationId :: string
  raw_address :: "kroger_address option"
  raw_geolocation :: "kroger_geolocation option"

record kroger_locations_body =
  locations_data :: "kroger_location_raw list option"

record kroger_price =
  promo :: jsval
  regular :: jsval

record kroger_sku =
  sku_price :: "kroger_price option"

record kroger_image_size =
  size_label :: "string option"
  url :: "string option"

record kroger_image =
  sizes :: "kroger_image_size list option"

record kroger_product_raw =
  k_description :: "string option"
  k_brand :: "string option"
  k_items :: "kroger_sku list option"
  k_images :: "kroger_image list option"
  k_attributes :: "string list option"
  k_primaryDepartment :: "string option"
  k_upc :: "string option"
  k_productId :: "string option"

record kroger_products_body =
  products_data :: "kroger_product_raw list option"

record walmart_store_raw =
  s_no :: "string option"
  s_storeId :: "string option"
  s_id :: "string option"
  s_name :: "string option"
  s_storeType :: "string option"
  s_zip :: "string option"
  s_zipCode :: "string option"
  s_postalCode :: "string option"

record walmart_stores_body =
  stores_data :: "walmart_store_raw list option"
  stores_stores :: "walmart_store_raw list option"

record walmart_item_raw =
  w_salePrice :: jsval
  w_listPrice :: jsval
  w_msrp :: jsval
  w_price :: jsval
  w_name :: "string option"
  w_title :: "string option"
  w_shortName :: "string option"
  w_mediumImage :: "string option"
  w_imageUrl :: "string option"
  w_thumbnailImage :: "string option"
  w_brandName :: "string option"
  w_brand :: "string option"
  w_upc :: "string option"
  w_itemId :: "string option"

record walmart_items_body =
  items_items :: "walmart_item_raw list option"
  items_data :: "walmart_item_raw list option"

text \<open>
  The world of one call: the environment variables, the providers, and the log of the
  requests sent so far. A provider answers a request knowing every earlier request, so its
  answers may change from one call to the next. Only \<open>log\<close> changes.
\<close>

record world =
  KROGER_CLIENT_ID :: "string option"
  KROGER_CLIENT_SECRET :: "string option"
  WALMART_PUBLISHER_ID :: "string option"
  WALMART_API_KEY :: "string option"
  kroger_token_api :: "request list \<Rightarrow> request \<Rightarrow> kroger_token_body response"
  kroger_locations_api :: "request list \<Rightarrow> request \<Rightarrow> kroger_locations_body response"
  kroger_products_api :: "request list \<Rightarrow> request \<Rightarrow> kroger_products_body response"
  walmart_stores_api :: "request list \<Rightarrow> request \<Rightarrow> walmart_stores_body response"
  walmart_items_api :: "request list \<Rightarrow> request \<Rightarrow> walmart_items_body response"
  walmart_search_api :: "request list \<Rightarrow> request \<Rightarrow> walmart_items_body response"
  log :: "request list"

text \<open>One request to a provider: its answer, and the world with the request logged.\<close>

definition fetch ::
  "(world \<Rightarrow> request list \<Rightarrow> request \<Rightarrow> 'a response) \<Rightarrow> request \<Rightarrow> world \<Rightarrow> 'a response \<times> world" where
  "fetch api rq w = (api w (log w) rq, w\<lparr>log := log w @ [rq]\<rparr>)"


section \<open>The Kroger adapter (src/api/kroger.ts)\<close>

text \<open>\<open>getKrogerAccessToken\<close>: no request is sent when the client id or the secret is missing or empty.\<close>

definition getKrogerAccessToken :: "world \<Rightarrow> string option \<times> world" where
  "getKrogerAccessToken w =
     (case (KROGER_CLIENT_ID w, KROGER_CLIENT_SECRET w) of
        (Some clientId, Some clientSecret) \<Rightarrow>
          if clientId = [] \<or> clientSecret = [] then (None, w)
          else
            (let (res, w1) = fetch kroger_token_api (KrogerToken clientId clientSecret) w
             in case res of
                  Json data \<Rightarrow> (access_token data, w1)
                | _ \<Rightarrow> (None, w1))
      | _ \<Rightarrow> (None, w))"

record KrogerLocation =
  locationId :: string
  loc_name :: string
  loc_coordinates :: "real \<times> real"

definition kroger_location :: "kroger_location_raw \<Rightarrow> KrogerLocation" where
  "kroger_location loc =
     \<lparr>locationId = raw_locationId loc,
      loc_name = orElse (Option.bind (raw_address loc) address_name) (raw_locationId loc),
      loc_coordinates =
        (orElse (Option.bind (raw_geolocation loc) geo_latitude) 0,
         orElse (Option.bind (raw_geolocation loc) geo_longitude) 0)\<rparr>"

definition searchKrogerLocations ::
  "real \<Rightarrow> real \<Rightarrow> real \<Rightarrow> string \<Rightarrow> world \<Rightarrow> KrogerLocation list \<times> world" where
  "searchKrogerLocations lat lon radiusMiles token w =
     (let (res, w1) = fetch kroger_locations_api (KrogerLocations lat lon radiusMiles token) w
      in case res of
           Json json \<Rightarrow> (map kroger_location (orElse (locations_data json) []), w1)
         | _ \<Rightarrow> ([], w1))"

text \<open>\<open>images.find((s) => s.size === 'medium')\<close>\<close>

definition find_medium :: "kroger_image_size list \<Rightarrow> kroger_image_size option" where
  "find_medium images = List.find (\<lambda>s. size_label s = Some ''medium'') images"

text \<open>
  The part of a product record that \<open>getKrogerProductByUPC\<close> and \<open>searchKrogerProducts\<close>
  compute alike: price, image, name, brand and the organic flag.
\<close>

definition kroger_priceInfo :: "kroger_product_raw \<Rightarrow> kroger_price" where
  "kroger_priceInfo item =
     orElse (Option.bind (optFirst (k_items item)) sku_price) \<lparr>promo = Undefined, regular = Undefined\<rparr>"

definition kroger_item_price :: "kroger_product_raw \<Rightarrow> jsnum" where
  "kroger_item_price item =
     (let priceInfo = kroger_priceInfo item
      in Number (coalesce (promo priceInfo) (coalesce (regular priceInfo) (Numeric 0))))"

definition kroger_imageUrl :: "kroger_product_raw \<Rightarrow> string" where
  "kroger_imageUrl item =
     (let images = orElse (Option.bind (optFirst (k_images item)) sizes) []
      in orElse (orElseOpt (Option.bind (find_medium images) url) (Option.bind (first images) url)) [])"

text \<open>
  \<open>item.description ?? item.description?.consumer ?? 'Unknown Product'\<close>: when the description is
  missing, so is its \<open>consumer\<close>, and the default is taken.
\<close>

definition kroger_productName :: "kroger_product_raw \<Rightarrow> string" where
  "kroger_productName item = orElse (k_description item) ''Unknown Product''"

definition kroger_isOrganic :: "kroger_product_raw \<Rightarrow> bool" where
  "kroger_isOrganic item =
     orElse (map_option (list_ex (\<lambda>attr. str_includes (toLowerCase attr) ''organic'')) (k_attributes item)) False"

definition getKrogerProductByUPC :: "string \<Rightarrow> string \<Rightarrow> string \<Rightarrow> world \<Rightarrow> Item option \<times> world" where
  "getKrogerProductByUPC upc locId token w =
     (let (res, w1) = fetch kroger_products_api
            (KrogerProducts [(''filter.upc'', upc), (''filter.locationId'', locId), (''filter.limit'', ''1'')] token) w
      in case res of
           Json json \<Rightarrow>
             (case optFirst (products_data json) of
                None \<Rightarrow> (None, w1)
              | Some item \<Rightarrow>
                  (Some \<lparr>item_id = upc,
                         item_name = kroger_productName item,
                         item_brand = k_brand item,
                         item_price = kroger_item_price item,
                         item_image = kroger_imageUrl item,
                         item_store = Some (orElse (k_primaryDepartment item) ''Kroger''),
                         item_coordinates = None,
                         item_isOrganic = Some (kroger_isOrganic item),
                         item_tag = None,
                         item_recommendations = None\<rparr>, w1))
         | _ \<Rightarrow> (None, w1))"

text \<open>
  The loop of \<open>getKrogerDeals\<close>: one product lookup per store, in the order of the stores;
  the result lists the offers in the order \<open>deals.push\<close> appends them.
\<close>

fun krogerDealsLoop :: "string \<Rightarrow> string \<Rightarrow> KrogerLocation list \<Rightarrow> world \<Rightarrow> Recommendation list \<times> world" where
  "krogerDealsLoop upc token [] w = ([], w)"
| "krogerDealsLoop upc token (loc # locs) w =
     (let (product, w1) = getKrogerProductByUPC upc (locationId loc) token w;
          pushed = (case product of
                      Some p \<Rightarrow>
                        if truthy_num (item_price p) then
                          [\<lparr>rec_id = item_id p, rec_name = item_name p, rec_price = item_price p,
                            rec_store = ''Kroger ('' @ loc_name loc @ '')'', rec_distance = None\<rparr>]
                        else []
                    | None \<Rightarrow> []);
          (rest, w2) = krogerDealsLoop upc token locs w1
      in (pushed @ rest, w2))"

definition getKrogerDeals ::
  "string \<Rightarrow> real \<Rightarrow> real \<Rightarrow> real \<Rightarrow> string \<Rightarrow> world \<Rightarrow> Recommendation list \<times> world" where
  "getKrogerDeals upc lat lon radiusMiles token w =
     (let (locations, w1) = searchKrogerLocations lat lon radiusMiles token w;
          (deals, w2) = krogerDealsLoop upc token locations w1
      in (array_sort by_price deals, w2))"

definition kroger_search_item :: "KrogerLocation \<Rightarrow> kroger_product_raw \<Rightarrow> Item" where
  "kroger_search_item loc0 item =
     \<lparr>item_id = orElse (orElseOpt (k_upc item) (k_productId item)) [],
      item_name = kroger_productName item,
      item_brand = k_brand item,
      item_price = kroger_item_price item,
      item_image = kroger_imageUrl item,
      item_store = Some (loc_name loc0),
      item_coordinates = Some (loc_coordinates loc0),
      item_isOrganic = Some (kroger_isOrganic item),
      item_tag = None,
      item_recommendations = None\<rparr>"

definition searchKrogerProducts ::
  "string \<Rightarrow> real \<Rightarrow> real \<Rightarrow> real \<Rightarrow> string \<Rightarrow> world \<Rightarrow> Item list \<times> world" where
  "searchKrogerProducts term lat lon radiusMiles token w =
     (let (locations, w1) = searchKrogerLocations lat lon radiusMiles token w
      in case locations of
           [] \<Rightarrow> ([], w1)
         | loc0 # _ \<Rightarrow>
             (let (res, w2) = fetch kroger_products_api
                    (KrogerProducts [(''filter.term'', term), (''filter.locationId'', locationId loc0),
                                     (''filter.limit'', ''20'')] token) w1
              in case res of
                   Json json \<Rightarrow> (map (kroger_search_item loc0) (orElse (products_data json) []), w2)
                 | _ \<Rightarrow> ([], w2)))"


section \<open>The Walmart adapter (src/api/walmart.ts)\<close>

definition getPublisherId :: "world \<Rightarrow> string option" where
  "getPublisherId w =
     (case WALMART_PUBLISHER_ID w of
        Some id' \<Rightarrow> if id' \<noteq> [] \<and> trim id' \<noteq> [] then Some (trim id') else None
      | None \<Rightarrow> None)"

definition getApiKey :: "world \<Rightarrow> string option" where
  "getApiKey w =
     (case WALMART_API_KEY w of
        Some key \<Rightarrow> if key \<noteq> [] \<and> trim key \<noteq> [] then Some (trim key) else None
      | None \<Rightarrow> None)"

text \<open>The query parameters of a request: the entries whose value is there and not empty.\<close>

fun query_params :: "(string \<times> qval option) list \<Rightarrow> (string \<times> qval) list" where
  "query_params [] = []"
| "query_params ((key, None) # q) = query_params q"
| "query_params ((key, Some v) # q) =
     (if qval_empty v then query_params q else (key, v) # query_params q)"

text \<open>\<open>fetchWalmartJSON\<close>: the decoded body, or nothing on any failure.\<close>

definition fetchWalmartJSON ::
  "(world \<Rightarrow> request list \<Rightarrow> request \<Rightarrow> 'a response) \<Rightarrow> string \<Rightarrow> (string \<times> qval option) list
     \<Rightarrow> world \<Rightarrow> 'a option \<times> world" where
  "fetchWalmartJSON api path query w =
     (let params = (case getPublisherId w of
                      Some publisherId \<Rightarrow> [(''publisherId'', Str publisherId)]
                    | None \<Rightarrow> []) @ query_params query;
          (res, w1) = fetch api (WalmartGet path params (getApiKey w)) w
      in case res of
           Json data \<Rightarrow> (Some data, w1)
         | _ \<Rightarrow> (None, w1))"

record WalmartStore =
  store_id :: string
  store_name :: string
  store_zipCode :: "string option"

definition walmart_store :: "walmart_store_raw \<Rightarrow> WalmartStore" where
  "walmart_store store =
     \<lparr>store_id = orElse (orElseOpt (s_no store) (orElseOpt (s_storeId store) (s_id store))) [],
      store_name = orElse (orElseOpt (s_name store) (s_storeType store)) ''Walmart Store'',
      store_zipCode = orElseOpt (s_zip store) (orElseOpt (s_zipCode store) (s_postalCode store))\<rparr>"

definition searchWalmartStores :: "real \<Rightarrow> real \<Rightarrow> real \<Rightarrow> world \<Rightarrow> WalmartStore list \<times> world" where
  "searchWalmartStores lat lon radiusMiles w =
     (let (data, w1) = fetchWalmartJSON walmart_stores_api ''/stores''
            [(''lat'', Some (NumStr lat)), (''lon'', Some (NumStr lon)),
             (''radius'', Some (NumStr radiusMiles))] w
      in case data of
           None \<Rightarrow> ([], w1)
         | Some d \<Rightarrow> (map walmart_store (orElse (orElseOpt (stores_data d) (stores_stores d)) []), w1))"

text \<open>
  The price of an item record: \<open>priceFields.map((p) => (p != null ? Number(p) : NaN))
  .find((p) => !Number.isNaN(p))\<close>, and \<open>0\<close> when nothing is found.
\<close>

definition walmart_item_price :: "walmart_item_raw \<Rightarrow> jsnum" where
  "walmart_item_price itemData =
     (let priceFields = [w_salePrice itemData, w_listPrice itemData, w_msrp itemData, w_price itemData];
          numericPrice = List.find is_num (map (\<lambda>p. if \<not> nullish p then Number p else NaN) priceFields)
      in orElse numericPrice (Num 0))"

definition walmart_item_name :: "walmart_item_raw \<Rightarrow> string" where
  "walmart_item_name itemData =
     orElse (orElseOpt (w_name itemData) (orElseOpt (w_title itemData) (w_shortName itemData)))
       ''Unknown Product''"

definition walmart_imageUrl :: "walmart_item_raw \<Rightarrow> string" where
  "walmart_imageUrl itemData =
     orElse (orElseOpt (w_mediumImage itemData) (orElseOpt (w_imageUrl itemData) (w_thumbnailImage itemData))) []"

text \<open>\<open>storeId ? `Walmart (${storeId})` : 'Walmart'\<close>\<close>

definition walmart_store_label :: "string option \<Rightarrow> string" where
  "walmart_store_label storeId =
     (case storeId of
        Some sid \<Rightarrow> if sid \<noteq> [] then ''Walmart ('' @ sid @ '')'' else ''Walmart''
      | None \<Rightarrow> ''Walmart'')"

definition getWalmartProductByUPC ::
  "string \<Rightarrow> string option \<Rightarrow> string option \<Rightarrow> world \<Rightarrow> Item option \<times> world" where
  "getWalmartProductByUPC upc storeId zipCode w =
     (let query = [(''upc'', Some (Str upc))] @
                  (if truthy_str storeId then [(''storeId'', map_option Str storeId)]
                   else if truthy_str zipCode then [(''zipCode'', map_option Str zipCode)]
                   else []);
          (data, w1) = fetchWalmartJSON walmart_items_api ''/items'' query w
      in case data of
           None \<Rightarrow> (None, w1)
         | Some d \<Rightarrow>
             (case orElseOpt (optFirst (items_items d)) (optFirst (items_data d)) of
                None \<Rightarrow> (None, w1)
              | Some itemData \<Rightarrow>
                  (Some \<lparr>item_id = upc,
                         item_name = walmart_item_name itemData,
                         item_brand = orElseOpt (w_brandName itemData) (w_brand itemData),
                         item_price = walmart_item_price itemData,
                         item_image = walmart_imageUrl itemData,
                         item_store = Some (walmart_store_label storeId),
                         item_coordinates = None,
                         item_isOrganic = Some (str_includes (toLowerCase (walmart_item_name itemData)) ''organic''),
                         item_tag = None,
                         item_recommendations = None\<rparr>, w1)))"

text \<open>The loop of \<open>getWalmartDeals\<close>, store by store, as for Kroger.\<close>

fun walmartDealsLoop :: "string \<Rightarrow> WalmartStore list \<Rightarrow> world \<Rightarrow> Recommendation list \<times> world" where
  "walmartDealsLoop upc [] w = ([], w)"
| "walmartDealsLoop upc (store # stores) w =
     (let (product, w1) = getWalmartProductByUPC upc (Some (store_id store)) (store_zipCode store) w;
          pushed = (case product of
                      Some p \<Rightarrow>
                        if truthy_num (item_price p) then
                          [\<lparr>rec_id = item_id p, rec_name = item_name p, rec_price = item_price p,
                            rec_store = orElse (item_store p) ''Walmart'', rec_distance = None\<rparr>]
                        else []
                    | None \<Rightarrow> []);
          (rest, w2) = walmartDealsLoop upc stores w1
      in (pushed @ rest, w2))"

definition getWalmartDeals :: "string \<Rightarrow> real \<Rightarrow> real \<Rightarrow> real \<Rightarrow> world \<Rightarrow> Recommendation list \<times> world" where
  "getWalmartDeals upc lat lon radiusMiles w =
     (let (stores, w1) = searchWalmartStores lat lon radiusMiles w;
          (deals, w2) = walmartDealsLoop upc stores w1
      in (array_sort by_price deals, w2))"

definition walmart_search_item :: "WalmartStore option \<Rightarrow> walmart_item_raw \<Rightarrow> Item" where
  "walmart_search_item defaultStore item =
     \<lparr>item_id = orElse (orElseOpt (w_upc item) (w_itemId item)) [],
      item_name = walmart_item_name item,
      item_brand = orElseOpt (w_brandName item) (w_brand item),
      item_price = walmart_item_price item,
      item_image = walmart_imageUrl item,
      item_store = Some (case defaultStore of
                           Some st \<Rightarrow> ''Walmart ('' @ store_name st @ '')''
                         | None \<Rightarrow> ''Walmart''),
      item_coordinates = None,
      item_isOrganic = Some (str_includes (toLowerCase (walmart_item_name item)) ''organic''),
      item_tag = None,
      item_recommendations = None\<rparr>"

definition searchWalmartProducts :: "string \<Rightarrow> real \<Rightarrow> real \<Rightarrow> real \<Rightarrow> world \<Rightarrow> Item list \<times> world" where
  "searchWalmartProducts term lat lon radiusMiles w =
     (let (data, w1) = fetchWalmartJSON walmart_search_api ''/search''
            [(''query'', Some (Str term)), (''sort'', Some (Str ''bestseller'')),
             (''order'', Some (Str ''ascending'')), (''numItems'', Some (Str ''20''))] w
      in case data of
           None \<Rightarrow> ([], w1)
         | Some d \<Rightarrow>
             (let items = orElse (orElseOpt (items_items d) (items_data d)) [];
                  (stores, w2) = searchWalmartStores lat lon radiusMiles w1;
                  defaultStore = first stores
              in (map (walmart_search_item defaultStore) items, w2)))"


section \<open>The aggregator (src/api/index.ts)\<close>

text \<open>
  \<open>fetchProductWithDeals\<close> starts the Kroger and the Walmart lookups together and awaits
  both. The model runs the Kroger chain first, then the Walmart chain: each chain's requests
  depend on its own answers only, and the providers may answer by the whole log, so the
  theorems below, which hold for all providers, hold for the other interleavings too.
\<close>

definition krogerPromise ::
  "string \<Rightarrow> real \<Rightarrow> real \<Rightarrow> real \<Rightarrow> string option \<Rightarrow> world \<Rightarrow> Item option \<times> world" where
  "krogerPromise upc latitude longitude radiusMiles krogerToken w =
     (case krogerToken of
        None \<Rightarrow> (None, w)
      | Some token \<Rightarrow>
          if token = [] then (None, w)
          else
            (let (krogerLocations, w1) = searchKrogerLocations latitude longitude radiusMiles token w
             in case krogerLocations of
                  [] \<Rightarrow> (None, w1)
                | loc # _ \<Rightarrow>
                    (let (product, w2) = getKrogerProductByUPC upc (locationId loc) token w1
                     in (map_option (\<lambda>p. p\<lparr>item_store := Some (loc_name loc),
                                            item_coordinates := Some (loc_coordinates loc)\<rparr>) product, w2))))"

definition walmartPromise ::
  "string \<Rightarrow> real \<Rightarrow> real \<Rightarrow> real \<Rightarrow> bool \<Rightarrow> world \<Rightarrow> Item option \<times> world" where
  "walmartPromise upc latitude longitude radiusMiles hasWalmart w =
     (if \<not> hasWalmart then (None, w)
      else
        (let (walmartStores, w1) = searchWalmartStores latitude longitude radiusMiles w
         in case walmartStores of
              [] \<Rightarrow> (None, w1)
            | store # _ \<Rightarrow>
                (let (product, w2) = getWalmartProductByUPC upc (Some (store_id store)) (store_zipCode store) w1
                 in (map_option (\<lambda>p. p\<lparr>item_coordinates := None\<rparr>) product, w2))))"

text \<open>
  Lines 34 to 103 of \<open>fetchProductWithDeals\<close>: the scanned item, and the array \<open>deals\<close>
  after the last \<open>push\<close> (empty when there is no item).
\<close>

definition gatherDeals ::
  "string \<Rightarrow> real \<Rightarrow> real \<Rightarrow> real \<Rightarrow> world \<Rightarrow> (Item option \<times> Recommendation list) \<times> world" where
  "gatherDeals upc latitude longitude radiusMiles w =
     (let (krogerToken, w1) = getKrogerAccessToken w;
          hasWalmart = truthy_str (WALMART_PUBLISHER_ID w1);
          (krogerItem, w2) = krogerPromise upc latitude longitude radiusMiles krogerToken w1;
          (walmartItem, w3) = walmartPromise upc latitude longitude radiusMiles hasWalmart w2;
          item = orElseOpt krogerItem walmartItem
      in if item = None then ((None, []), w3)
         else
           (let (walmartDeals, w4) =
                  (if krogerItem \<noteq> None \<and> hasWalmart
                   then getWalmartDeals upc latitude longitude radiusMiles w3 else ([], w3));
                (krogerDeals, w5) =
                  (case krogerToken of
                     Some token \<Rightarrow>
                       if walmartItem \<noteq> None \<and> token \<noteq> []
                       then getKrogerDeals upc latitude longitude radiusMiles token w4 else ([], w4)
                   | None \<Rightarrow> ([], w4))
            in ((item, walmartDeals @ krogerDeals), w5)))"

text \<open>Lines 104 to 113: self-exclusion by store label, then the sort by price.\<close>

definition fetchProductWithDeals ::
  "string \<Rightarrow> real \<Rightarrow> real \<Rightarrow> real \<Rightarrow> world \<Rightarrow> (Item option \<times> Recommendation list) \<times> world" where
  "fetchProductWithDeals upc latitude longitude radiusMiles w =
     (let ((item, deals), w1) = gatherDeals upc latitude longitude radiusMiles w
      in case item of
           None \<Rightarrow> ((None, []), w1)
         | Some it \<Rightarrow>
             (let scannedStore = map_option toLowerCase (item_store it);
                  filteredDeals = filter (\<lambda>d. Some (toLowerCase (rec_store d)) \<noteq> scannedStore) deals
              in ((Some it, array_sort by_price filteredDeals), w1)))"


section \<open>Notions of the specification\<close>



text \<open>The sort key of an offer whose price is a number.\<close>

definition price_key :: "Recommendation \<Rightarrow> real" where
  "price_key d = num_val (rec_price d)"

text \<open>The label test of the self-exclusion filter, for a scanned item \<open>it\<close>.\<close>

definition other_store :: "Item \<Rightarrow> Recommendation \<Rightarrow> bool" where
  "other_store it d = (Some (toLowerCase (rec_store d)) \<noteq> map_option toLowerCase (item_store it))"







section \<open>Example inputs\<close>

definition offer :: "string \<Rightarrow> real \<Rightarrow> Recommendation" where
  "offer store p =
     \<lparr>rec_id = ''0001111041700'', rec_name = ''Bananas'', rec_price = Num p,
      rec_store = store, rec_distance = None\<rparr>"

definition bananas :: "jsnum \<Rightarrow> string option \<Rightarrow> (real \<times> real) option \<Rightarrow> Item" where
  "bananas p st co =
     \<lparr>item_id = ''0001111041700'', item_name = ''Bananas'', item_brand = None,
      item_price = p, item_image = [], item_store = st,
      item_coordinates = co, item_isOrganic = Some False, item_tag = None,
      item_recommendations = None\<rparr>"

definition scanned_at :: "real \<Rightarrow> DealTag option \<Rightarrow> Item" where
  "scanned_at p t = (bananas (Num p) (Some ''Kroger'') None)\<lparr>item_tag := t\<rparr>"

definition kroger_product :: "jsval \<Rightarrow> jsval \<Rightarrow> kroger_product_raw" where
  "kroger_product p r =
     \<lparr>k_description = Some ''Bananas'', k_brand = None,
      k_items = Some [\<lparr>sku_price = Some \<lparr>promo = p, regular = r\<rparr>\<rparr>],
      k_images = None, k_attributes = None, k_primaryDepartment = None,
      k_upc = Some ''0001111041700'', k_productId = None\<rparr>"

definition kroger_unpriced :: kroger_product_raw where
  "kroger_unpriced = (kroger_product Undefined Undefined)\<lparr>k_items := None\<rparr>"

definition kroger_store :: "string \<Rightarrow> string option \<Rightarrow> kroger_location_raw" where
  "kroger_store i n =
     \<lparr>raw_locationId = i, raw_address = Some \<lparr>address_name = n\<rparr>, raw_geolocation = None\<rparr>"

definition walmart_item :: "jsval \<Rightarrow> jsval \<Rightarrow> jsval \<Rightarrow> jsval \<Rightarrow> walmart_item_raw" where
  "walmart_item sale list' msrp price =
     \<lparr>w_salePrice = sale, w_listPrice = list', w_msrp = msrp, w_price = price,
      w_name = Some ''Bananas'', w_title = None, w_shortName = None,
      w_mediumImage = None, w_imageUrl = None, w_thumbnailImage = None,
      w_brandName = None, w_brand = None, w_upc = Some ''0001111041700'', w_itemId = None\<rparr>"

definition walmart_shop :: "string \<Rightarrow> walmart_store_raw" where
  "walmart_shop n =
     \<lparr>s_no = Some n, s_storeId = None, s_id = None, s_name = None, s_storeType = None,
      s_zip = None, s_zipCode = None, s_postalCode = None\<rparr>"

text \<open>
  Both providers configured and answering. Kroger has two stores: K1, named Main St, sells
  at 3.29 (no promotion), K2 at the promotional 2.99. Walmart has one store, W1, at 3.29.
  The catalogue searches return one record each.
\<close>

definition both_world :: world where
  "both_world =
     \<lparr>KROGER_CLIENT_ID = Some ''id'', KROGER_CLIENT_SECRET = Some ''secret'',
      WALMART_PUBLISHER_ID = Some ''pub'', WALMART_API_KEY = None,
      kroger_token_api = (\<lambda>h rq. Json \<lparr>access_token = Some ''tok''\<rparr>),
      kroger_locations_api = (\<lambda>h rq. Json \<lparr>locations_data =
          Some [kroger_store ''K1'' (Some ''Main St''), kroger_store ''K2'' None]\<rparr>),
      kroger_products_api = (\<lambda>h rq. case rq of
          KrogerProducts q t \<Rightarrow>
            if map_of q ''filter.locationId'' = Some ''K2''
            then Json \<lparr>products_data = Some [kroger_product (Numeric 2.99) (Numeric 3.29)]\<rparr>
            else Json \<lparr>products_data = Some [kroger_product Null (Numeric 3.29)]\<rparr>
        | _ \<Rightarrow> NotOk),
      walmart_stores_api = (\<lambda>h rq. Json \<lparr>stores_data = Some [walmart_shop ''W1''], stores_stores = None\<rparr>),
      walmart_items_api = (\<lambda>h rq. Json \<lparr>items_items =
          Some [walmart_item (Numeric 3.29) Undefined Undefined Undefined], items_data = None\<rparr>),
      walmart_search_api = (\<lambda>h rq. Json \<lparr>items_items =
          Some [walmart_item (Numeric 3.29) Undefined Undefined Undefined], items_data = None\<rparr>),
      log = []\<rparr>"

text \<open>No provider configured: no Kroger secret, no Walmart publisher id.\<close>

definition unconfigured_world :: world where
  "unconfigured_world =
     both_world\<lparr>KROGER_CLIENT_SECRET := None, WALMART_PUBLISHER_ID := None\<rparr>"

text \<open>
  Kroger's store K1 reports a promotional price of zero and K2 a promotional price that is
  no number; Walmart's record has no price field.
\<close>

definition unpriced_world :: world where
  "unpriced_world =
     both_world\<lparr>kroger_products_api := (\<lambda>h rq. case rq of
          KrogerProducts q t \<Rightarrow>
            if map_of q ''filter.locationId'' = Some ''K2''
            then Json \<lparr>products_data = Some [kroger_product NonNumeric (Numeric 3.29)]\<rparr>
            else Json \<lparr>products_data = Some [kroger_product (Numeric 0) (Numeric 3.29)]\<rparr>
        | _ \<Rightarrow> NotOk),
      walmart_items_api := (\<lambda>h rq. Json \<lparr>items_items =
          Some [walmart_item Undefined Undefined Undefined Undefined], items_data = None\<rparr>)\<rparr>"

text \<open>
  The catalogue searches answer with 21 records, whatever limit the request carries, and
  the Walmart store locator is down.
\<close>

definition generous_world :: world where
  "generous_world =
     both_world\<lparr>kroger_products_api := (\<lambda>h rq.
          Json \<lparr>products_data = Some (replicate 21 (kroger_product Null (Numeric 3.29)))\<rparr>),
      walmart_search_api := (\<lambda>h rq. Json \<lparr>items_items =
          Some [walmart_item (Numeric 3.29) Undefined Undefined Undefined], items_data = None\<rparr>),
      walmart_stores_api := (\<lambda>h rq. NetworkError)\<rparr>"

text \<open>The Walmart catalogue and the Kroger store search are down.\<close>

definition offline_world :: world where
  "offline_world =
     both_world\<lparr>kroger_locations_api := (\<lambda>h rq. NotOk),
      walmart_search_api := (\<lambda>h rq. NetworkError)\<rparr>"


section \<open>The deal evaluator: classification, empty offer list, idempotence\<close>

lemma so_so_scanned_positive:
  assumes "\<not> js_le s c" and "js_le s (js_mul c (js_add (Num 1) margin))"
  shows "\<exists>r. s = Num r \<and> 0 < r"
  using assms by (cases s; cases c) (auto simp: margin_def)

lemma evaluateDeal_NaN_price:
  assumes "item_price scanned = NaN" and "offers \<noteq> []"
  shows "evaluateDeal scanned offers =
           scanned\<lparr>item_tag := Some NO_DEAL, item_recommendations := Some (take 3 offers)\<rparr>"
  using assms by (cases offers) (auto simp: evaluateDeal_def)



text \<open>
  C5. With an empty offer list, a verdict the item already carries is kept; an item with no
  verdict gets DEAL; in both cases the result carries no recommendations.
\<close>

theorem evaluateDeal_no_offers:
  "(\<forall>t. item_tag scanned = Some t \<longrightarrow> item_tag (evaluateDeal scanned []) = Some t)
   \<and> (item_tag scanned = None \<longrightarrow> item_tag (evaluateDeal scanned []) = Some DEAL)
   \<and> item_recommendations (evaluateDeal scanned []) = None"
  by (simp add: evaluateDeal_def)

theorem evaluateDeal_no_offers_witness:
  "item_tag (scanned_at 0.72 (Some NO_DEAL)) = Some NO_DEAL
   \<and> item_tag (evaluateDeal (scanned_at 0.72 (Some NO_DEAL)) []) = Some NO_DEAL
   \<and> item_tag (scanned_at 0.72 None) = None
   \<and> item_tag (evaluateDeal (scanned_at 0.72 None) []) = Some DEAL
   \<and> item_recommendations (evaluateDeal (scanned_at 0.72 (Some NO_DEAL)) []) = None"
  using evaluateDeal_no_offers [of "scanned_at 0.72 (Some NO_DEAL)"]
        evaluateDeal_no_offers [of "scanned_at 0.72 None"]
  by (simp add: scanned_at_def bananas_def)

text \<open>
  C9. \<open>evaluateDeal\<close> reads nothing but its two arguments, so two invocations on the same pair
  give the same item, verdict and recommendations included; and evaluating the evaluated
  item against the same offers changes nothing.
\<close>

theorem evaluateDeal_idempotent:
  "evaluateDeal (evaluateDeal item offers) offers = evaluateDeal item offers"
  by (cases offers) (auto simp: evaluateDeal_def split: option.splits)


section \<open>Sorting offers by price\<close>

lemma set_sort_insert: "set (sort_insert cmp x xs) = insert x (set xs)"
  by (induction xs) auto

lemma set_array_sort: "set (array_sort cmp xs) = set xs"
  unfolding array_sort_def by (induction xs) (auto simp: set_sort_insert)

lemma length_sort_insert: "length (sort_insert cmp x xs) = Suc (length xs)"
  by (induction xs) auto

lemma length_array_sort: "length (array_sort cmp xs) = length xs"
  unfolding array_sort_def by (induction xs) (auto simp: length_sort_insert)

lemma truthy_is_num: "truthy_num p \<Longrightarrow> is_num p"
  by (cases p) auto

lemma truthy_nonzero: "truthy_num p \<Longrightarrow> p \<noteq> Num 0 \<and> p \<noteq> NaN"
  by (cases p) auto

lemma sort_insert_by_price:
  assumes "is_num (rec_price x)" and "\<forall>y\<in>set ys. is_num (rec_price y)"
  shows "sort_insert by_price x ys = insort_key price_key x ys"
  using assms
proof (induction ys)
  case Nil
  then show ?case by simp
next
  case (Cons y ys)
  then show ?case
    by (cases "rec_price x"; cases "rec_price y") (auto simp: by_price_def price_key_def)
qed

text \<open>On prices that are numbers the model of \<open>sort\<close> is the stable sort by price.\<close>

lemma array_sort_by_price:
  assumes "\<forall>d\<in>set xs. is_num (rec_price d)"
  shows "array_sort by_price xs = sort_key price_key xs"
  using assms
proof (induction xs)
  case Nil
  then show ?case by (simp add: array_sort_def)
next
  case (Cons x xs)
  have "\<forall>y\<in>set (foldr (sort_insert by_price) xs []). is_num (rec_price y)"
    using Cons.prems set_array_sort [of by_price xs] by (simp add: array_sort_def)
  with Cons show ?case
    by (simp add: array_sort_def sort_insert_by_price)
qed

lemma js_le_price_key:
  "is_num (rec_price a) \<Longrightarrow> is_num (rec_price b) \<Longrightarrow>
   js_le (rec_price a) (rec_price b) = (price_key a \<le> price_key b)"
  by (cases "rec_price a"; cases "rec_price b") (auto simp: price_key_def)

lemma sorted_array_sort_by_price:
  assumes "\<forall>d\<in>set xs. is_num (rec_price d)"
  shows "sorted_wrt (\<lambda>a b. js_le (rec_price a) (rec_price b)) (array_sort by_price xs)"
proof -
  have "sorted (map price_key (sort_key price_key xs))" by simp
  then have "sorted_wrt (\<lambda>a b. price_key a \<le> price_key b) (sort_key price_key xs)"
    by (simp add: sorted_map)
  then have "sorted_wrt (\<lambda>a b. js_le (rec_price a) (rec_price b)) (sort_key price_key xs)"
    by (rule sorted_wrt_mono_rel [rotated]) (use assms in \<open>auto simp: js_le_price_key\<close>)
  then show ?thesis by (simp add: array_sort_by_price [OF assms])
qed

lemma same_price_same_key:
  "is_num (rec_price d) \<Longrightarrow> (rec_price d = Num k) = (price_key d = k)"
  by (cases "rec_price d") (auto simp: price_key_def)

lemma array_sort_by_price_stable:
  assumes "\<forall>d\<in>set xs. is_num (rec_price d)"
  shows "filter (\<lambda>d. rec_price d = p) (array_sort by_price xs) = filter (\<lambda>d. rec_price d = p) xs"
proof (cases p)
  case NaN
  have "filter (\<lambda>d. rec_price d = NaN) ys = []" if "set ys = set xs" for ys
    using assms that by (auto simp: filter_empty_conv)
  from this [of xs] this [of "array_sort by_price xs"] NaN show ?thesis
    by (simp add: set_array_sort)
next
  case (Num k)
  have eq: "filter (\<lambda>d. rec_price d = Num k) ys = filter (\<lambda>d. price_key d = k) ys"
    if "set ys = set xs" for ys
    by (rule filter_cong [OF refl]) (use assms that in \<open>auto simp: same_price_same_key\<close>)
  have "filter (\<lambda>d. rec_price d = Num k) (array_sort by_price xs)
          = filter (\<lambda>d. price_key d = k) (sort_key price_key xs)"
    using eq [of "array_sort by_price xs"]
    by (simp add: set_array_sort array_sort_by_price [OF assms])
  also have "\<dots> = filter (\<lambda>d. price_key d = k) xs"
    by (rule sort_key_stable)
  also have "\<dots> = filter (\<lambda>d. rec_price d = Num k) xs"
    using eq [of xs] by simp
  finally show ?thesis using Num by simp
qed


section \<open>The offers of a provider\<close>

lemma krogerDealsLoop_truthy:
  "krogerDealsLoop upc token locs w = (ds, w') \<Longrightarrow> d \<in> set ds \<Longrightarrow> truthy_num (rec_price d)"
proof (induction locs arbitrary: w ds w')
  case Nil
  then show ?case by simp
next
  case (Cons loc locs)
  then show ?case
    by (fastforce split: prod.splits option.splits if_splits)
qed

lemma walmartDealsLoop_truthy:
  "walmartDealsLoop upc stores w = (ds, w') \<Longrightarrow> d \<in> set ds \<Longrightarrow> truthy_num (rec_price d)"
proof (induction stores arbitrary: w ds w')
  case Nil
  then show ?case by simp
next
  case (Cons st stores)
  then show ?case
    by (fastforce split: prod.splits option.splits if_splits)
qed

lemma getKrogerDeals_truthy:
  "getKrogerDeals upc lat lon r token w = (ds, w') \<Longrightarrow> d \<in> set ds \<Longrightarrow> truthy_num (rec_price d)"
  by (auto simp: getKrogerDeals_def set_array_sort split: prod.splits dest: krogerDealsLoop_truthy)

lemma getWalmartDeals_truthy:
  "getWalmartDeals upc lat lon r w = (ds, w') \<Longrightarrow> d \<in> set ds \<Longrightarrow> truthy_num (rec_price d)"
  by (auto simp: getWalmartDeals_def set_array_sort split: prod.splits dest: walmartDealsLoop_truthy)

lemma gatherDeals_truthy:
  "gatherDeals upc lat lon r w = ((item, ds), w') \<Longrightarrow> d \<in> set ds \<Longrightarrow> truthy_num (rec_price d)"
  by (auto simp: gatherDeals_def Let_def split: prod.splits if_splits option.splits
      dest: getKrogerDeals_truthy getWalmartDeals_truthy)

text \<open>Within one provider, offers of one price stay in the order of the stores.\<close>

lemma getKrogerDeals_stable:
  "filter (\<lambda>d. rec_price d = p) (fst (getKrogerDeals upc lat lon r token w))
     = filter (\<lambda>d. rec_price d = p)
         (fst (krogerDealsLoop upc token (fst (searchKrogerLocations lat lon r token w))
                 (snd (searchKrogerLocations lat lon r token w))))"
proof -
  obtain locs w1 where l: "searchKrogerLocations lat lon r token w = (locs, w1)"
    by (cases "searchKrogerLocations lat lon r token w")
  obtain ds w2 where k: "krogerDealsLoop upc token locs w1 = (ds, w2)"
    by (cases "krogerDealsLoop upc token locs w1")
  have "\<forall>d\<in>set ds. is_num (rec_price d)"
    using krogerDealsLoop_truthy [OF k] by (auto intro: truthy_is_num)
  from array_sort_by_price_stable [OF this] show ?thesis
    by (simp add: getKrogerDeals_def l k)
qed

lemma getWalmartDeals_stable:
  "filter (\<lambda>d. rec_price d = p) (fst (getWalmartDeals upc lat lon r w))
     = filter (\<lambda>d. rec_price d = p)
         (fst (walmartDealsLoop upc (fst (searchWalmartStores lat lon r w))
                 (snd (searchWalmartStores lat lon r w))))"
proof -
  obtain stores w1 where l: "searchWalmartStores lat lon r w = (stores, w1)"
    by (cases "searchWalmartStores lat lon r w")
  obtain ds w2 where k: "walmartDealsLoop upc stores w1 = (ds, w2)"
    by (cases "walmartDealsLoop upc stores w1")
  have "\<forall>d\<in>set ds. is_num (rec_price d)"
    using walmartDealsLoop_truthy [OF k] by (auto intro: truthy_is_num)
  from array_sort_by_price_stable [OF this] show ?thesis
    by (simp add: getWalmartDeals_def l k)
qed

text \<open>
  C10. Every offer that \<open>getKrogerDeals\<close> or \<open>getWalmartDeals\<close> returns has a price that is
  a number other than zero; and a store whose product lookup gives a price of zero or
  \<open>NaN\<close> adds nothing to the offers: the loop goes on as if the store were not there.
\<close>

theorem deals_have_nonzero_price:
  "(\<forall>d\<in>set (fst (getKrogerDeals upc lat lon r token w)). rec_price d \<noteq> Num 0 \<and> rec_price d \<noteq> NaN)
   \<and> (\<forall>d\<in>set (fst (getWalmartDeals upc lat lon r w)). rec_price d \<noteq> Num 0 \<and> rec_price d \<noteq> NaN)
   \<and> (\<forall>p w1. getKrogerProductByUPC upc (locationId loc) token w = (Some p, w1)
          \<and> (item_price p = Num 0 \<or> item_price p = NaN)
        \<longrightarrow> krogerDealsLoop upc token (loc # locs) w = krogerDealsLoop upc token locs w1)
   \<and> (\<forall>p w1. getWalmartProductByUPC upc (Some (store_id store)) (store_zipCode store) w = (Some p, w1)
          \<and> (item_price p = Num 0 \<or> item_price p = NaN)
        \<longrightarrow> walmartDealsLoop upc (store # stores) w = walmartDealsLoop upc stores w1)"
proof (intro conjI ballI allI impI)
  fix d assume "d \<in> set (fst (getKrogerDeals upc lat lon r token w))"
  then have "truthy_num (rec_price d)"
    using getKrogerDeals_truthy [of upc lat lon r token w] by (metis prod.collapse)
  then show "rec_price d \<noteq> Num 0" and "rec_price d \<noteq> NaN"
    using truthy_nonzero by auto
next
  fix d assume "d \<in> set (fst (getWalmartDeals upc lat lon r w))"
  then have "truthy_num (rec_price d)"
    using getWalmartDeals_truthy [of upc lat lon r w] by (metis prod.collapse)
  then show "rec_price d \<noteq> Num 0" and "rec_price d \<noteq> NaN"
    using truthy_nonzero by auto
next
  fix p w1
  assume "getKrogerProductByUPC upc (locationId loc) token w = (Some p, w1)
            \<and> (item_price p = Num 0 \<or> item_price p = NaN)"
  then show "krogerDealsLoop upc token (loc # locs) w = krogerDealsLoop upc token locs w1"
    by (auto split: prod.splits)
next
  fix p w1
  assume "getWalmartProductByUPC upc (Some (store_id store)) (store_zipCode store) w = (Some p, w1)
            \<and> (item_price p = Num 0 \<or> item_price p = NaN)"
  then show "walmartDealsLoop upc (store # stores) w = walmartDealsLoop upc stores w1"
    by (auto split: prod.splits)
qed


section \<open>The example worlds, evaluated\<close>

lemmas example_defs =
  both_world_def unconfigured_world_def unpriced_world_def generous_world_def offline_world_def
  kroger_product_def kroger_unpriced_def kroger_store_def walmart_item_def walmart_shop_def
  offer_def bananas_def

lemmas adapter_defs =
  fetch_def getKrogerAccessToken_def searchKrogerLocations_def kroger_location_def
  getKrogerProductByUPC_def kroger_productName_def kroger_item_price_def kroger_priceInfo_def
  kroger_imageUrl_def kroger_isOrganic_def find_medium_def coalesce_def
  getKrogerDeals_def getPublisherId_def getApiKey_def fetchWalmartJSON_def walmart_store_def
  searchWalmartStores_def walmart_item_price_def walmart_item_name_def walmart_imageUrl_def
  walmart_store_label_def getWalmartProductByUPC_def getWalmartDeals_def
  krogerPromise_def walmartPromise_def gatherDeals_def fetchProductWithDeals_def
  searchKrogerProducts_def kroger_search_item_def searchWalmartProducts_def walmart_search_item_def
  array_sort_def by_price_def toLowerCase_def lower_char_def trim_def is_space_def

lemma both_world_token:
  "fst (getKrogerAccessToken both_world) = Some ''tok''"
  by (simp add: example_defs adapter_defs)

lemma both_world_kroger_item:
  "fst (krogerPromise ''0001111041700'' 0 0 5 (Some ''tok'') (snd (getKrogerAccessToken both_world)))
     = Some (bananas (Num 3.29) (Some ''Main St'') (Some (0, 0)))"
  by (simp add: example_defs adapter_defs)

lemma both_world_gather:
  "fst (gatherDeals ''0001111041700'' 0 0 5 both_world) =
     (Some (bananas (Num 3.29) (Some ''Main St'') (Some (0, 0))),
      [offer ''Walmart (W1)'' 3.29, offer ''Kroger (K2)'' 2.99, offer ''Kroger (Main St)'' 3.29])"
  by (simp add: example_defs adapter_defs)

lemma both_world_result:
  "fst (fetchProductWithDeals ''0001111041700'' 0 0 5 both_world) =
     (Some (bananas (Num 3.29) (Some ''Main St'') (Some (0, 0))),
      [offer ''Kroger (K2)'' 2.99, offer ''Walmart (W1)'' 3.29, offer ''Kroger (Main St)'' 3.29])"
  by (simp add: example_defs adapter_defs)

lemma both_world_log:
  "log (snd (fetchProductWithDeals ''0001111041700'' 0 0 5 both_world)) =
     [KrogerToken ''id'' ''secret'',
      KrogerLocations 0 0 5 ''tok'',
      KrogerProducts [(''filter.upc'', ''0001111041700''), (''filter.locationId'', ''K1''),
                      (''filter.limit'', ''1'')] ''tok'',
      WalmartGet ''/stores'' [(''publisherId'', Str ''pub''), (''lat'', NumStr 0), (''lon'', NumStr 0),
                              (''radius'', NumStr 5)] None,
      WalmartGet ''/items'' [(''publisherId'', Str ''pub''), (''upc'', Str ''0001111041700''),
                             (''storeId'', Str ''W1'')] None,
      WalmartGet ''/stores'' [(''publisherId'', Str ''pub''), (''lat'', NumStr 0), (''lon'', NumStr 0),
                              (''radius'', NumStr 5)] None,
      WalmartGet ''/items'' [(''publisherId'', Str ''pub''), (''upc'', Str ''0001111041700''),
                             (''storeId'', Str ''W1'')] None,
      KrogerLocations 0 0 5 ''tok'',
      KrogerProducts [(''filter.upc'', ''0001111041700''), (''filter.locationId'', ''K1''),
                      (''filter.limit'', ''1'')] ''tok'',
      KrogerProducts [(''filter.upc'', ''0001111041700''), (''filter.locationId'', ''K2''),
                      (''filter.limit'', ''1'')] ''tok'']"
  by (simp add: example_defs adapter_defs)

lemma both_world_kroger_deals:
  "fst (getKrogerDeals ''0001111041700'' 0 0 5 ''tok'' both_world)
     = [offer ''Kroger (K2)'' 2.99, offer ''Kroger (Main St)'' 3.29]"
  by (simp add: example_defs adapter_defs)

lemma both_world_walmart_deals:
  "fst (getWalmartDeals ''0001111041700'' 0 0 5 both_world) = [offer ''Walmart (W1)'' 3.29]"
  by (simp add: example_defs adapter_defs)

lemma unpriced_world_kroger_lookups:
  "fst (getKrogerProductByUPC ''0001111041700'' ''K1'' ''tok'' unpriced_world)
     = Some (bananas (Num 0) (Some ''Kroger'') None)"
  "fst (getKrogerProductByUPC ''0001111041700'' ''K2'' ''tok'' unpriced_world)
     = Some (bananas NaN (Some ''Kroger'') None)"
  by (simp_all add: example_defs adapter_defs)

lemma unpriced_world_walmart_lookup:
  "fst (getWalmartProductByUPC ''0001111041700'' (Some ''W1'') None unpriced_world)
     = Some (bananas (Num 0) (Some ''Walmart (W1)'') None)"
  by (simp add: example_defs adapter_defs)

lemma unpriced_world_deals:
  "fst (getKrogerDeals ''0001111041700'' 0 0 5 ''tok'' unpriced_world) = []"
  "fst (getWalmartDeals ''0001111041700'' 0 0 5 unpriced_world) = []"
  by (simp_all add: example_defs adapter_defs)

theorem deals_have_nonzero_price_witness:
  "fst (getKrogerDeals ''0001111041700'' 0 0 5 ''tok'' both_world)
     = [offer ''Kroger (K2)'' 2.99, offer ''Kroger (Main St)'' 3.29]
   \<and> rec_price (offer ''Kroger (K2)'' 2.99) \<noteq> Num 0 \<and> rec_price (offer ''Kroger (K2)'' 2.99) \<noteq> NaN
   \<and> rec_price (offer ''Kroger (Main St)'' 3.29) \<noteq> Num 0
   \<and> rec_price (offer ''Kroger (Main St)'' 3.29) \<noteq> NaN
   \<and> fst (getWalmartDeals ''0001111041700'' 0 0 5 both_world) = [offer ''Walmart (W1)'' 3.29]
   \<and> rec_price (offer ''Walmart (W1)'' 3.29) \<noteq> Num 0 \<and> rec_price (offer ''Walmart (W1)'' 3.29) \<noteq> NaN
   \<and> fst (getKrogerProductByUPC ''0001111041700'' ''K1'' ''tok'' unpriced_world)
        = Some (bananas (Num 0) (Some ''Kroger'') None)
   \<and> krogerDealsLoop ''0001111041700'' ''tok''
        [\<lparr>locationId = ''K1'', loc_name = ''Main St'', loc_coordinates = (0, 0)\<rparr>,
         \<lparr>locationId = ''K2'', loc_name = ''K2'', loc_coordinates = (0, 0)\<rparr>] unpriced_world
      = krogerDealsLoop ''0001111041700'' ''tok''
          [\<lparr>locationId = ''K2'', loc_name = ''K2'', loc_coordinates = (0, 0)\<rparr>]
          (snd (getKrogerProductByUPC ''0001111041700'' ''K1'' ''tok'' unpriced_world))
   \<and> fst (getWalmartProductByUPC ''0001111041700'' (Some ''W1'') None unpriced_world)
        = Some (bananas (Num 0) (Some ''Walmart (W1)'') None)
   \<and> walmartDealsLoop ''0001111041700''
        [\<lparr>store_id = ''W1'', store_name = ''Walmart Store'', store_zipCode = None\<rparr>] unpriced_world
      = walmartDealsLoop ''0001111041700'' []
          (snd (getWalmartProductByUPC ''0001111041700'' (Some ''W1'') None unpriced_world))"
proof -
  let ?K1 = "\<lparr>locationId = ''K1'', loc_name = ''Main St'', loc_coordinates = (0, 0)\<rparr>"
  let ?K2 = "\<lparr>locationId = ''K2'', loc_name = ''K2'', loc_coordinates = (0, 0)\<rparr>"
  let ?W1 = "\<lparr>store_id = ''W1'', store_name = ''Walmart Store'', store_zipCode = None\<rparr>"
  note both = deals_have_nonzero_price
    [where upc = "''0001111041700''" and lat = 0 and lon = 0 and r = 5 and token = "''tok''"
       and w = both_world]
  note unpriced = deals_have_nonzero_price
    [where upc = "''0001111041700''" and token = "''tok''" and w = unpriced_world
       and loc = ?K1 and locs = "[?K2]" and store = ?W1 and stores = "[]"]
  have prices:
    "rec_price (offer ''Kroger (K2)'' 2.99) \<noteq> Num 0 \<and> rec_price (offer ''Kroger (K2)'' 2.99) \<noteq> NaN
     \<and> rec_price (offer ''Kroger (Main St)'' 3.29) \<noteq> Num 0
     \<and> rec_price (offer ''Kroger (Main St)'' 3.29) \<noteq> NaN
     \<and> rec_price (offer ''Walmart (W1)'' 3.29) \<noteq> Num 0 \<and> rec_price (offer ''Walmart (W1)'' 3.29) \<noteq> NaN"
    using both [THEN conjunct1] both [THEN conjunct2, THEN conjunct1]
    by (simp add: both_world_kroger_deals both_world_walmart_deals)
  have k: "getKrogerProductByUPC ''0001111041700'' (locationId ?K1) ''tok'' unpriced_world
             = (Some (bananas (Num 0) (Some ''Kroger'') None),
                snd (getKrogerProductByUPC ''0001111041700'' ''K1'' ''tok'' unpriced_world))
           \<and> (item_price (bananas (Num 0) (Some ''Kroger'') None) = Num 0
              \<or> item_price (bananas (Num 0) (Some ''Kroger'') None) = NaN)"
    using unpriced_world_kroger_lookups(1) by (simp add: prod_eq_iff bananas_def)
  have kstep: "krogerDealsLoop ''0001111041700'' ''tok'' [?K1, ?K2] unpriced_world
      = krogerDealsLoop ''0001111041700'' ''tok'' [?K2]
          (snd (getKrogerProductByUPC ''0001111041700'' ''K1'' ''tok'' unpriced_world))"
    using unpriced [THEN conjunct2, THEN conjunct2, THEN conjunct1, rule_format, OF k] .
  have w: "getWalmartProductByUPC ''0001111041700'' (Some (store_id ?W1)) (store_zipCode ?W1) unpriced_world
             = (Some (bananas (Num 0) (Some ''Walmart (W1)'') None),
                snd (getWalmartProductByUPC ''0001111041700'' (Some ''W1'') None unpriced_world))
           \<and> (item_price (bananas (Num 0) (Some ''Walmart (W1)'') None) = Num 0
              \<or> item_price (bananas (Num 0) (Some ''Walmart (W1)'') None) = NaN)"
    using unpriced_world_walmart_lookup by (simp add: prod_eq_iff bananas_def)
  have wstep: "walmartDealsLoop ''0001111041700'' [?W1] unpriced_world
      = walmartDealsLoop ''0001111041700'' []
          (snd (getWalmartProductByUPC ''0001111041700'' (Some ''W1'') None unpriced_world))"
    using unpriced [THEN conjunct2, THEN conjunct2, THEN conjunct2, rule_format, OF w] .
  show ?thesis
    using prices kstep wstep both_world_kroger_deals both_world_walmart_deals
      unpriced_world_kroger_lookups(1) unpriced_world_walmart_lookup
    by simp
qed


section \<open>The aggregator\<close>

lemma fetchProductWithDeals_unfold:
  assumes "fst (fetchProductWithDeals upc lat lon r w) = (Some it, ds)"
  shows "fst (fst (gatherDeals upc lat lon r w)) = Some it
       \<and> ds = array_sort by_price (filter (other_store it) (snd (fst (gatherDeals upc lat lon r w))))"
  using assms
  by (auto simp: fetchProductWithDeals_def other_store_def [abs_def] Let_def
      split: prod.splits option.splits)

lemma gathered_prices_are_numbers:
  "\<forall>d\<in>set (snd (fst (gatherDeals upc lat lon r w))). is_num (rec_price d)"
proof
  fix d assume d: "d \<in> set (snd (fst (gatherDeals upc lat lon r w)))"
  obtain item ds w' where g: "gatherDeals upc lat lon r w = ((item, ds), w')"
    by (metis prod.collapse)
  with d gatherDeals_truthy [OF g] show "is_num (rec_price d)"
    by (auto intro: truthy_is_num)
qed

text \<open>
  C3. When \<open>fetchProductWithDeals\<close> returns an item, the returned offers are in
  non-decreasing order of price (every earlier offer's price is at most every later one's),
  and the offers of any one price are, in the same order, those of the array \<open>deals\<close> as
  the offers were appended to it, less the ones the store filter removes. Within a
  provider's list the offers of one price are in the order of the stores (lemmas
  \<open>getKrogerDeals_stable\<close> and \<open>getWalmartDeals_stable\<close>).
\<close>

theorem deals_sorted_by_price:
  assumes "fst (fetchProductWithDeals upc lat lon r w) = (Some it, ds)"
  shows "sorted_wrt (\<lambda>a b. js_le (rec_price a) (rec_price b)) ds
       \<and> (\<forall>p. filter (\<lambda>d. rec_price d = p) ds
              = filter (\<lambda>d. rec_price d = p)
                  (filter (other_store it) (snd (fst (gatherDeals upc lat lon r w)))))"
proof -
  let ?kept = "filter (other_store it) (snd (fst (gatherDeals upc lat lon r w)))"
  have ds: "ds = array_sort by_price ?kept"
    using fetchProductWithDeals_unfold [OF assms] by simp
  have nums: "\<forall>d\<in>set ?kept. is_num (rec_price d)"
    using gathered_prices_are_numbers [of upc lat lon r w] by simp
  show ?thesis
    using sorted_array_sort_by_price [OF nums] array_sort_by_price_stable [OF nums] ds by simp
qed

theorem deals_sorted_by_price_witness:
  "fst (fetchProductWithDeals ''0001111041700'' 0 0 5 both_world)
     = (Some (bananas (Num 3.29) (Some ''Main St'') (Some (0, 0))),
        [offer ''Kroger (K2)'' 2.99, offer ''Walmart (W1)'' 3.29, offer ''Kroger (Main St)'' 3.29])
   \<and> sorted_wrt (\<lambda>a b. js_le (rec_price a) (rec_price b))
        [offer ''Kroger (K2)'' 2.99, offer ''Walmart (W1)'' 3.29, offer ''Kroger (Main St)'' 3.29]
   \<and> snd (fst (gatherDeals ''0001111041700'' 0 0 5 both_world))
        = [offer ''Walmart (W1)'' 3.29, offer ''Kroger (K2)'' 2.99, offer ''Kroger (Main St)'' 3.29]
   \<and> filter (\<lambda>d. rec_price d = Num 3.29)
        [offer ''Kroger (K2)'' 2.99, offer ''Walmart (W1)'' 3.29, offer ''Kroger (Main St)'' 3.29]
        = [offer ''Walmart (W1)'' 3.29, offer ''Kroger (Main St)'' 3.29]"
  using deals_sorted_by_price [OF both_world_result] both_world_result both_world_gather
  by (simp add: offer_def)

text \<open>
  C4. When \<open>fetchProductWithDeals\<close> returns an item that has a store label, no returned offer
  has a store label equal to it once both are put in lower case.
\<close>

theorem self_exclusion:
  assumes "fst (fetchProductWithDeals upc lat lon r w) = (Some it, ds)"
    and "item_store it = Some label"
  shows "\<forall>d\<in>set ds. toLowerCase (rec_store d) \<noteq> toLowerCase label"
  using fetchProductWithDeals_unfold [OF assms(1)] assms(2)
  by (auto simp: set_array_sort other_store_def)

theorem self_exclusion_witness:
  "fst (fetchProductWithDeals ''0001111041700'' 0 0 5 both_world)
     = (Some (bananas (Num 3.29) (Some ''Main St'') (Some (0, 0))),
        [offer ''Kroger (K2)'' 2.99, offer ''Walmart (W1)'' 3.29, offer ''Kroger (Main St)'' 3.29])
   \<and> item_store (bananas (Num 3.29) (Some ''Main St'') (Some (0, 0))) = Some ''Main St''
   \<and> toLowerCase (rec_store (offer ''Kroger (K2)'' 2.99)) \<noteq> toLowerCase ''Main St''
   \<and> toLowerCase (rec_store (offer ''Walmart (W1)'' 3.29)) \<noteq> toLowerCase ''Main St''
   \<and> toLowerCase (rec_store (offer ''Kroger (Main St)'' 3.29)) \<noteq> toLowerCase ''Main St''"
  using self_exclusion [OF both_world_result, of "''Main St''"] both_world_result
  by (simp add: offer_def bananas_def)

text \<open>
  C7. When the Kroger client id or secret is missing (or empty) and the Walmart publisher
  id is missing (or empty), \<open>fetchProductWithDeals\<close> returns no item and no offers, and the
  world it leaves is the world it found: nothing was added to the log of requests.
\<close>

theorem no_provider_configured:
  assumes "\<not> truthy_str (KROGER_CLIENT_ID w) \<or> \<not> truthy_str (KROGER_CLIENT_SECRET w)"
    and "\<not> truthy_str (WALMART_PUBLISHER_ID w)"
  shows "fetchProductWithDeals upc lat lon r w = ((None, []), w)"
proof -
  have tok: "getKrogerAccessToken w = (None, w)"
    using assms(1) by (auto simp: getKrogerAccessToken_def split: option.splits)
  have "gatherDeals upc lat lon r w = ((None, []), w)"
    using assms(2) by (simp add: gatherDeals_def tok krogerPromise_def walmartPromise_def)
  then show ?thesis
    by (simp add: fetchProductWithDeals_def)
qed

theorem no_provider_configured_witness:
  "\<not> truthy_str (KROGER_CLIENT_SECRET unconfigured_world)
   \<and> \<not> truthy_str (WALMART_PUBLISHER_ID unconfigured_world)
   \<and> fetchProductWithDeals ''0001111041700'' 0 0 5 unconfigured_world = ((None, []), unconfigured_world)
   \<and> log (snd (fetchProductWithDeals ''0001111041700'' 0 0 5 unconfigured_world)) = []"
  using no_provider_configured [of unconfigured_world "''0001111041700''" 0 0 5]
  by (simp add: unconfigured_world_def both_world_def)

text \<open>
  C2, at an input where the code departs from it. Both providers are configured and both
  find the product. The scanned item is the one of the Kroger lookup, at the store Main St,
  and still the offers returned hold the two offers of \<open>getKrogerDeals\<close>, the one of the
  scanned store included; the last three requests of the log are that function's store
  search and its two per-store lookups.
\<close>

theorem kroger_item_with_kroger_offers:
  "fst (krogerPromise ''0001111041700'' 0 0 5 (Some ''tok'') (snd (getKrogerAccessToken both_world)))
     = Some (bananas (Num 3.29) (Some ''Main St'') (Some (0, 0)))
   \<and> fst (fetchProductWithDeals ''0001111041700'' 0 0 5 both_world)
     = (Some (bananas (Num 3.29) (Some ''Main St'') (Some (0, 0))),
        [offer ''Kroger (K2)'' 2.99, offer ''Walmart (W1)'' 3.29, offer ''Kroger (Main St)'' 3.29])
   \<and> fst (getKrogerDeals ''0001111041700'' 0 0 5 ''tok'' both_world)
     = [offer ''Kroger (K2)'' 2.99, offer ''Kroger (Main St)'' 3.29]
   \<and> drop 7 (log (snd (fetchProductWithDeals ''0001111041700'' 0 0 5 both_world)))
     = [KrogerLocations 0 0 5 ''tok'',
        KrogerProducts [(''filter.upc'', ''0001111041700''), (''filter.locationId'', ''K1''),
                        (''filter.limit'', ''1'')] ''tok'',
        KrogerProducts [(''filter.upc'', ''0001111041700''), (''filter.locationId'', ''K2''),
                        (''filter.limit'', ''1'')] ''tok'']"
  using both_world_kroger_item both_world_result both_world_kroger_deals both_world_log
  by simp


section \<open>Price extraction\<close>













section \<open>Catalogue search\<close>













end
